theory Spec2Isabelle
  imports Complex_Main "HOL-Library.Word"
begin

section \<open>Exceptions, effects and process state\<close>

text \<open>
  The assistant is a Python program whose functions raise, mutate module globals and
  talk to devices and services. In this development an exception is a value of type
  \<open>exn\<close> (every value stands for an instance of Python's \<open>Exception\<close>, the class that
  \<open>Brain.run\<close> catches), a function that can raise returns \<open>exn + 'a\<close> with \<open>Inl\<close> for the
  exception, module globals are fields of the record \<open>world\<close>, and every call that
  reaches outside the process is appended to a trace of effects.

  Python floats are modelled as the reals they denote. Timestamps and scores are only
  subtracted and compared with a constant, where rounding cannot turn a failing test
  into a passing one. Where a result depends on how an operation rounds (the frame
  count and the sample conversion of a capture), the operation is a parameter.
\<close>

datatype exn =
    RuntimeError string
  | AttributeError string
  | TypeError string
  | ValueError string
  | HTTPError nat
  | JSONDecodeError string
  | RecursionError string
  | LibraryError string

datatype json =
    JNull
  | JBool bool
  | JInt int
  | JFloat real
  | JStr string
  | JList "json list"
  | JDict "(string \<times> json) list"

datatype effect =
    KeyboardWait string
  | ModelCreated string
  | StreamOpened
  | StreamStarted
  | ChunkPulled
  | StreamStopped
  | StreamClosed
  | LogInfo string
  | LogException exn
  | SpeakCalled string
  | RunCmd "string list"
  | PlayWav string
  | HttpGet string
  | HttpPost string
  | RoutedTool "(string \<times> json) list"

text \<open>
  \<open>LAST_TRIGGER\<close> is \<open>wake._LAST_TRIGGER\<close>; \<open>last_transcript\<close> and \<open>last_response\<close> are the
  globals of \<open>brain.py\<close> (\<open>None\<close> until first assigned).
\<close>

record world =
  LAST_TRIGGER :: real
  last_transcript :: "string option"
  last_response :: "string option"
  trace :: "effect list"

text \<open>The part of \<open>config.py\<close> that the trigger detector reads.\<close>

record config =
  USE_PUSH_TO_TALK :: bool
  PTT_KEY :: string
  WAKEWORD :: string

section \<open>wake.py: the trigger detector\<close>

text \<open>
  One iteration of the detection loop observes, in this order: \<open>q.get()\<close> (a chunk
  arrives, or the call raises), \<open>model.predict(data)\<close> (a dictionary of scores, or it
  raises), \<open>time.time()\<close>, and, only when the wake-word test has failed,
  \<open>keyboard.is_pressed(PTT_KEY)\<close>.
\<close>

record tick =
  q_get :: "exn option"
  predict :: "exn + (string \<times> real) list"
  now :: real
  is_pressed :: "exn + bool"

text \<open>\<open>scores.get(config.WAKEWORD, 0.0)\<close>\<close>

definition score_of :: "config \<Rightarrow> (string \<times> real) list \<Rightarrow> real" where
  "score_of cfg scores = (case map_of scores (WAKEWORD cfg) of None \<Rightarrow> 0 | Some s \<Rightarrow> s)"

text \<open>
  The body of \<open>while True\<close> in \<open>listen_for_wake\<close>, over the observations of the
  iterations still to come. The loop has no exit of its own: when the observations run
  out it is still waiting, which is the result \<open>None\<close>.
\<close>

fun wake_loop :: "config \<Rightarrow> real \<Rightarrow> tick list \<Rightarrow> world \<Rightarrow> (exn + string) option \<times> world" where
  "wake_loop cfg threshold [] w = (None, w)"
| "wake_loop cfg threshold (t # ts) w =
     (case q_get t of
        Some e \<Rightarrow> (Some (Inl e), w)
      | None \<Rightarrow>
          (let w1 = w\<lparr>trace := trace w @ [ChunkPulled]\<rparr> in
           case predict t of
             Inl e \<Rightarrow> (Some (Inl e), w1)
           | Inr scores \<Rightarrow>
               if score_of cfg scores > threshold \<and> now t - LAST_TRIGGER w1 > 1
               then (Some (Inr ''wakeword''), w1\<lparr>LAST_TRIGGER := now t\<rparr>)
               else
                 (case is_pressed t of
                    Inl e \<Rightarrow> (Some (Inl e), w1)
                  | Inr pressed \<Rightarrow>
                      if pressed \<and> now t - LAST_TRIGGER w1 > 1
                      then (Some (Inr ''push_to_talk''), w1\<lparr>LAST_TRIGGER := now t\<rparr>)
                      else wake_loop cfg threshold ts w1)))"

text \<open>
  What one call of \<open>listen_for_wake\<close> meets outside the loop: \<open>keyboard.wait\<close> (never
  returns, raises, or returns with \<open>time.time()\<close> then reading the given instant), the
  construction of the \<open>openwakeword\<close> model, and the two steps of
  \<open>audio_io.microphone_stream()\<close>: the constructor \<open>sd.InputStream(...)\<close>, which opens the
  device or raises, and \<open>stream.start()\<close> on the opened stream, which may raise too.
  \<open>stream.stop()\<close> and \<open>stream.close()\<close> on a started stream are taken to succeed.
\<close>

record episode =
  keyboard_wait :: "(exn + real) option"
  model_create :: "exn option"
  input_stream :: "exn option"
  stream_start :: "exn option"
  ticks :: "tick list"

text \<open>
  \<open>audio_io.microphone_stream()\<close>: the stream is opened by its constructor and then
  started; an exception of either step leaves the function before the stream is
  returned.
\<close>

definition microphone_stream :: "episode \<Rightarrow> world \<Rightarrow> exn option \<times> world" where
  "microphone_stream ep w =
     (case input_stream ep of
        Some e \<Rightarrow> (Some e, w)
      | None \<Rightarrow>
          (let w1 = w\<lparr>trace := trace w @ [StreamOpened]\<rparr> in
           case stream_start ep of
             Some e \<Rightarrow> (Some e, w1)
           | None \<Rightarrow> (None, w1\<lparr>trace := trace w1 @ [StreamStarted]\<rparr>)))"

text \<open>
  \<open>listen_for_wake(threshold)\<close>. The flag \<open>oww\<close> says whether \<open>import openwakeword\<close>
  succeeded when the module was loaded (\<open>openwakeword is not None\<close>).
\<close>

definition listen_for_wake ::
  "config \<Rightarrow> bool \<Rightarrow> real \<Rightarrow> episode \<Rightarrow> world \<Rightarrow> (exn + string) option \<times> world" where
  "listen_for_wake cfg oww threshold ep w =
     (if USE_PUSH_TO_TALK cfg then
        (case keyboard_wait ep of
           None \<Rightarrow> (None, w)
         | Some (Inl e) \<Rightarrow> (Some (Inl e), w)
         | Some (Inr t) \<Rightarrow>
             (Some (Inr ''push_to_talk''),
              w\<lparr>LAST_TRIGGER := t, trace := trace w @ [KeyboardWait (PTT_KEY cfg)]\<rparr>))
      else if \<not> oww then (Some (Inl (RuntimeError ''openwakeword not available'')), w)
      else
        (case model_create ep of
           Some e \<Rightarrow> (Some (Inl e), w)
         | None \<Rightarrow>
             (let w1 = w\<lparr>trace := trace w @ [ModelCreated (WAKEWORD cfg)]\<rparr> in
              case microphone_stream ep w1 of
                (Some e, w2) \<Rightarrow> (Some (Inl e), w2)
              | (None, w2) \<Rightarrow>
                  (case wake_loop cfg threshold (ticks ep) w2 of
                     (None, w3) \<Rightarrow> (None, w3)
                   | (Some r, w3) \<Rightarrow>
                       (Some r, w3\<lparr>trace := trace w3 @ [StreamStopped, StreamClosed]\<rparr>)))))"

text \<open>The default of the parameter \<open>threshold\<close>.\<close>

definition default_threshold :: real where
  "default_threshold = 0.75"

text \<open>
  An iteration is idle when nothing is raised in it and neither trigger test passes,
  read against the value \<open>lt\<close> of \<open>_LAST_TRIGGER\<close>.
\<close>

definition idle :: "config \<Rightarrow> real \<Rightarrow> real \<Rightarrow> tick \<Rightarrow> bool" where
  "idle cfg threshold lt t =
     (q_get t = None \<and>
      (case predict t of
         Inl e \<Rightarrow> False
       | Inr scores \<Rightarrow>
           \<not> (score_of cfg scores > threshold \<and> now t - lt > 1) \<and>
           (case is_pressed t of
              Inl e \<Rightarrow> False
            | Inr pressed \<Rightarrow> \<not> (pressed \<and> now t - lt > 1))))"

text \<open>
  Successive calls of \<open>listen_for_wake\<close>, each with the configuration and the
  observations it meets, and the trigger events they return: the kind and the instant
  written to \<open>_LAST_TRIGGER\<close> when it fired. A call that raises returns no event; a call
  that never returns ends the sequence.
\<close>

fun triggers :: "bool \<Rightarrow> real \<Rightarrow> (config \<times> episode) list \<Rightarrow> world \<Rightarrow> (string \<times> real) list" where
  "triggers oww threshold [] w = []"
| "triggers oww threshold ((cfg, ep) # rest) w =
     (case listen_for_wake cfg oww threshold ep w of
        (None, w') \<Rightarrow> []
      | (Some (Inl e), w') \<Rightarrow> triggers oww threshold rest w'
      | (Some (Inr kind), w') \<Rightarrow> (kind, LAST_TRIGGER w') # triggers oww threshold rest w')"

text \<open>
  The microphone as a trace leaves it: the device is held from the moment a stream is
  opened, whether or not it is then started, and is released only by closing the
  stream; a running stream is stopped before it is closed.
\<close>

datatype mic = NoStream | Opened | Running | Stopped

fun mic_step :: "mic \<Rightarrow> effect \<Rightarrow> mic" where
  "mic_step m StreamOpened = Opened"
| "mic_step Opened StreamStarted = Running"
| "mic_step Running StreamStopped = Stopped"
| "mic_step Opened StreamClosed = NoStream"
| "mic_step Stopped StreamClosed = NoStream"
| "mic_step m e = m"

definition mic_after :: "mic \<Rightarrow> effect list \<Rightarrow> mic" where
  "mic_after m es = foldl mic_step m es"

section \<open>tts.py: speech synthesis\<close>

text \<open>
  What one call of \<open>tts.speak\<close> meets: whether \<open>shutil.which\<close> finds \<open>tts\<close> or \<open>piper\<close>,
  whether \<open>subprocess.run(cmd, check=True)\<close> raises, and whether playing \<open>reply.wav\<close>
  raises.
\<close>

record tts_env =
  which_tts :: bool
  which_piper :: bool
  subprocess_run :: "exn option"
  playback :: "exn option"

definition run_cmd :: "tts_env \<Rightarrow> string list \<Rightarrow> world \<Rightarrow> exn option \<times> world" where
  "run_cmd env cmd w = (subprocess_run env, w\<lparr>trace := trace w @ [RunCmd cmd]\<rparr>)"

definition speak :: "tts_env \<Rightarrow> string \<Rightarrow> world \<Rightarrow> (exn + string) \<times> world" where
  "speak env text w =
     (let out = ''reply.wav'';
          w1 = w\<lparr>trace := trace w @ [SpeakCalled text]\<rparr>;
          (failed, w2) =
            (if which_tts env then run_cmd env [''tts'', ''--text'', text, ''--out_path'', out] w1
             else if which_piper env then
               run_cmd env [''piper'', ''--text'', text, ''--output_file'', out] w1
             else (Some (RuntimeError ''No TTS engine available''), w1))
      in case failed of
           Some e \<Rightarrow> (Inl e, w2)
         | None \<Rightarrow>
             (let w3 = w2\<lparr>trace := trace w2 @ [PlayWav out]\<rparr> in
              case playback env of Some e \<Rightarrow> (Inl e, w3) | None \<Rightarrow> (Inr out, w3)))"

section \<open>brain.py: the turn controller\<close>

record brain =
  stt_model :: string

text \<open>
  What one iteration of \<open>Brain.run\<close> meets: the configuration in force, the wake-listen
  episode, and the outcome of each collaborator called in the turn:
  \<open>audio_io.record_seconds()\<close>, \<open>stt.transcribe(wav, model)\<close>,
  \<open>intents.handle_command(transcript)\<close>, the call of \<open>tts.speak\<close> on the response, and
  the call of \<open>tts.speak\<close> in the exception handler.
\<close>

record turn =
  turn_config :: config
  wake :: episode
  capture :: "exn + string"
  transcribe :: "string \<Rightarrow> string \<Rightarrow> exn + string"
  handle_command :: "string \<Rightarrow> exn + string"
  reply_tts :: tts_env
  apology_tts :: tts_env

definition log_info :: "string \<Rightarrow> world \<Rightarrow> world" where
  "log_info msg w = w\<lparr>trace := trace w @ [LogInfo msg]\<rparr>"

text \<open>\<open>Brain.run_once\<close>; \<open>None\<close> when the turn is still waiting for a trigger.\<close>

definition run_once :: "brain \<Rightarrow> bool \<Rightarrow> turn \<Rightarrow> world \<Rightarrow> (exn + unit) option \<times> world" where
  "run_once b oww t w =
     (case listen_for_wake (turn_config t) oww default_threshold (wake t) w of
        (None, w1) \<Rightarrow> (None, w1)
      | (Some (Inl e), w1) \<Rightarrow> (Some (Inl e), w1)
      | (Some (Inr trigger), w1) \<Rightarrow>
          (case capture t of
             Inl e \<Rightarrow> (Some (Inl e), w1)
           | Inr wav \<Rightarrow>
               (let w2 = log_info (''recorded audio at '' @ wav) w1 in
                case transcribe t wav (stt_model b) of
                  Inl e \<Rightarrow> (Some (Inl e), w2)
                | Inr transcript \<Rightarrow>
                    (let w3 = log_info (''transcript: '' @ transcript)
                                (w2\<lparr>last_transcript := Some transcript\<rparr>) in
                     case handle_command t transcript of
                       Inl e \<Rightarrow> (Some (Inl e), w3)
                     | Inr response \<Rightarrow>
                         (let w4 = log_info (''response: '' @ response)
                                     (w3\<lparr>last_response := Some response\<rparr>) in
                          case speak (reply_tts t) response w4 of
                            (Inl e, w5) \<Rightarrow> (Some (Inl e), w5)
                          | (Inr path, w5) \<Rightarrow> (Some (Inr ()), w5))))))"

text \<open>
  The exception handler of \<open>Brain.run\<close>: \<open>logger.exception\<close>, then one call of
  \<open>tts.speak\<close> whose own exception is passed over.
\<close>

definition apology :: string where
  "apology = ''Sorry, something went wrong''"

definition on_error :: "turn \<Rightarrow> exn \<Rightarrow> world \<Rightarrow> world" where
  "on_error t exc w = snd (speak (apology_tts t) apology (w\<lparr>trace := trace w @ [LogException exc]\<rparr>))"

text \<open>
  \<open>Brain.run\<close> over the turns still to come. The loop has no exit: the result is the
  state reached when the observations run out, or when a turn waits for a trigger that
  never comes.
\<close>

fun run :: "brain \<Rightarrow> bool \<Rightarrow> turn list \<Rightarrow> world \<Rightarrow> world" where
  "run b oww [] w = w"
| "run b oww (t # ts) w =
     (case run_once b oww t w of
        (None, w1) \<Rightarrow> w1
      | (Some (Inr u), w1) \<Rightarrow> run b oww ts w1
      | (Some (Inl exc), w1) \<Rightarrow> run b oww ts (on_error t exc w1))"

section \<open>audio_io.py: fixed-length capture and playback\<close>
















section \<open>scrypted.py, vlm.py, intents.py, llm.py: tools and the chat backend\<close>

text \<open>
  A JSON value is the Python object \<open>json.loads\<close> builds for it; a dictionary is a
  list of pairs read with \<open>map_of\<close>. \<open>truthy\<close> is Python's truth test, and \<open>py_get\<close> is
  \<open>obj.get(key, default)\<close>, which exists on dictionaries only.
\<close>

fun truthy :: "json \<Rightarrow> bool" where
  "truthy JNull = False"
| "truthy (JBool b) = b"
| "truthy (JInt i) = (i \<noteq> 0)"
| "truthy (JFloat x) = (x \<noteq> 0)"
| "truthy (JStr s) = (s \<noteq> [])"
| "truthy (JList xs) = (xs \<noteq> [])"
| "truthy (JDict kvs) = (kvs \<noteq> [])"

definition py_get :: "json \<Rightarrow> string \<Rightarrow> json \<Rightarrow> exn + json" where
  "py_get obj key dflt =
     (case obj of
        JDict kvs \<Rightarrow> Inr (case map_of kvs key of None \<Rightarrow> dflt | Some v \<Rightarrow> v)
      | _ \<Rightarrow> Inl (AttributeError ''get''))"

text \<open>
  An HTTP response as the code reads it, and the services the process talks to: the
  two settings of \<open>config.py\<close>, what \<open>requests.get\<close> and \<open>requests.post\<close> answer, and
  three library functions taken as given: \<open>str()\<close> of a value that is not a string (as
  an f-string formats it), \<open>base64.b64encode\<close>, and \<open>json.loads\<close> on a string, which
  returns the value read or raises: \<open>JSONDecodeError\<close> for a text that is not JSON, and
  for some texts that are JSON another exception (\<open>ValueError\<close> for an integer with more
  digits than the interpreter converts, \<open>RecursionError\<close> for nesting too deep).
\<close>

record response =
  status_code :: nat
  content :: string
  json_body :: "json option"

record services =
  SCRYPTED_URL :: "string option"
  SCRYPTED_TOKEN :: "string option"
  requests_get :: "string \<Rightarrow> (string \<times> string) list \<Rightarrow> exn + response"
  requests_post :: "string \<Rightarrow> (string \<times> string) list \<Rightarrow> json option \<Rightarrow> exn + response"
  str_of :: "json \<Rightarrow> string"
  b64encode :: "string \<Rightarrow> string"
  json_loads :: "string \<Rightarrow> exn + json"

text \<open>
  A computation that performs effects and may raise: its result and the effects it
  performed, in order. \<open>and_then\<close> runs the second only if the first returned.
\<close>

type_synonym 'a io = "(exn + 'a) \<times> effect list"

definition ret :: "'a \<Rightarrow> 'a io" where
  "ret x = (Inr x, [])"

definition raise :: "exn \<Rightarrow> 'a io" where
  "raise e = (Inl e, [])"

definition lift :: "exn + 'a \<Rightarrow> 'a io" where
  "lift r = (r, [])"

definition and_then :: "'a io \<Rightarrow> ('a \<Rightarrow> 'b io) \<Rightarrow> 'b io" where
  "and_then m f =
     (case m of
        (Inl e, es) \<Rightarrow> (Inl e, es)
      | (Inr x, es) \<Rightarrow> (case f x of (r, es') \<Rightarrow> (r, es @ es')))"

definition http_get :: "services \<Rightarrow> string \<Rightarrow> (string \<times> string) list \<Rightarrow> response io" where
  "http_get env url hs = (requests_get env url hs, [HttpGet url])"

definition http_post ::
  "services \<Rightarrow> string \<Rightarrow> (string \<times> string) list \<Rightarrow> json option \<Rightarrow> response io" where
  "http_post env url hs payload = (requests_post env url hs payload, [HttpPost url])"

definition raise_for_status :: "response \<Rightarrow> unit io" where
  "raise_for_status resp =
     (if 400 \<le> status_code resp \<and> status_code resp < 600
      then raise (HTTPError (status_code resp)) else ret ())"

definition resp_json :: "response \<Rightarrow> json io" where
  "resp_json resp =
     (case json_body resp of
        None \<Rightarrow> raise (ValueError ''Expecting value'')
      | Some v \<Rightarrow> ret v)"

text \<open>How an f-string renders a setting that may be \<open>None\<close>, and a JSON value.\<close>

definition fmt_opt :: "string option \<Rightarrow> string" where
  "fmt_opt v = (case v of None \<Rightarrow> ''None'' | Some s \<Rightarrow> s)"

definition fmt :: "services \<Rightarrow> json \<Rightarrow> string" where
  "fmt env v = (case v of JStr s \<Rightarrow> s | _ \<Rightarrow> str_of env v)"

text \<open>\<open>scrypted._headers\<close>, \<open>scrypted.snapshot\<close> and \<open>scrypted.arm\<close>.\<close>

definition headers :: "services \<Rightarrow> (string \<times> string) list io" where
  "headers env =
     (case SCRYPTED_TOKEN env of
        None \<Rightarrow> raise (RuntimeError ''SCRYPTED_TOKEN is not configured'')
      | Some token \<Rightarrow>
          if token = [] then raise (RuntimeError ''SCRYPTED_TOKEN is not configured'')
          else ret [(''Authorization'', ''Bearer '' @ token)])"

definition snapshot :: "services \<Rightarrow> json \<Rightarrow> string io" where
  "snapshot env device_id =
     (let url = fmt_opt (SCRYPTED_URL env) @ ''/api/devices/'' @ fmt env device_id @ ''/snapshot'' in
      and_then (headers env) (\<lambda>hs.
      and_then (http_get env url hs) (\<lambda>resp.
      and_then (raise_for_status resp) (\<lambda>u.
      ret (content resp)))))"

definition arm :: "services \<Rightarrow> json \<Rightarrow> bool io" where
  "arm env device_id =
     (let url = fmt_opt (SCRYPTED_URL env) @ ''/api/devices/'' @ fmt env device_id @ ''/arm'' in
      and_then (headers env) (\<lambda>hs.
      and_then (http_post env url hs None) (\<lambda>resp.
      if status_code resp = 404 then ret False
      else and_then (raise_for_status resp) (\<lambda>u. ret True))))"

definition OLLAMA_URL :: string where
  "OLLAMA_URL = ''http://localhost:11434''"

text \<open>\<open>vlm.analyze_image(prompt, image_bytes)\<close>\<close>

definition analyze_image :: "services \<Rightarrow> json \<Rightarrow> string \<Rightarrow> json io" where
  "analyze_image env prompt image_bytes =
     (let b64 = b64encode env image_bytes;
          messages =
            JList [JDict [(''role'', JStr ''user''),
                          (''content'',
                           JList [JDict [(''type'', JStr ''text''), (''text'', prompt)],
                                  JDict [(''type'', JStr ''image''), (''image'', JStr b64)]])]];
          payload = JDict [(''model'', JStr ''llava''), (''messages'', messages)] in
      and_then (http_post env (OLLAMA_URL @ ''/api/chat'') [] (Some payload)) (\<lambda>resp.
      and_then (raise_for_status resp) (\<lambda>u.
      and_then (resp_json resp) (\<lambda>body.
      and_then (lift (py_get body ''message'' (JDict []))) (\<lambda>message.
      lift (py_get message ''content'' (JStr [])))))))"

text \<open>\<open>intents.handle_tool(block)\<close>\<close>

definition handle_tool :: "services \<Rightarrow> (string \<times> json) list \<Rightarrow> json io" where
  "handle_tool env block =
     (let tool = map_of block ''tool'';
          args = (case map_of block ''args'' of None \<Rightarrow> JDict [] | Some a \<Rightarrow> a) in
      if tool = Some (JStr ''scrypted.snapshot'') then
        and_then (lift (py_get args ''device_id'' JNull)) (\<lambda>device_id.
        if \<not> truthy device_id then ret (JStr ''device_id missing'')
        else
          and_then (snapshot env device_id) (\<lambda>image.
          and_then (lift (py_get args ''prompt'' (JStr ''Describe the snapshot''))) (\<lambda>prompt.
          analyze_image env prompt image)))
      else if tool = Some (JStr ''scrypted.arm'') then
        and_then (lift (py_get args ''device_id'' JNull)) (\<lambda>device_id.
        if \<not> truthy device_id then ret (JStr ''device_id missing'')
        else
          and_then (arm env device_id) (\<lambda>armed.
          ret (JStr (if armed then ''Armed'' else ''Unable to arm''))))
      else ret (JStr ''Unknown tool''))"




section \<open>Reading a trace\<close>

text \<open>
  The exceptions that \<open>logger.exception\<close> recorded and the texts \<open>tts.speak\<close> was
  called with, in order.
\<close>

fun logged :: "effect list \<Rightarrow> exn list" where
  "logged [] = []"
| "logged (LogException e # es) = e # logged es"
| "logged (x # es) = logged es"

fun spoken :: "effect list \<Rightarrow> string list" where
  "spoken [] = []"
| "spoken (SpeakCalled s # es) = s # spoken es"
| "spoken (x # es) = spoken es"

section \<open>Concrete inputs\<close>

text \<open>
  The configurations of the two modes with the defaults of \<open>config.py\<close>, the state of
  a freshly started process, and small observations used to run the definitions.
\<close>

definition cfg_wake :: config where
  "cfg_wake = \<lparr>USE_PUSH_TO_TALK = False, PTT_KEY = ''F9'', WAKEWORD = ''hey_nova''\<rparr>"

definition cfg_ptt :: config where
  "cfg_ptt = \<lparr>USE_PUSH_TO_TALK = True, PTT_KEY = ''F9'', WAKEWORD = ''hey_nova''\<rparr>"

definition world0 :: world where
  "world0 = \<lparr>LAST_TRIGGER = 0, last_transcript = None, last_response = None, trace = []\<rparr>"

text \<open>
  An iteration in which a chunk arrives, the model scores it \<open>s\<close>, the clock reads \<open>t\<close>
  and the key is pressed or not.
\<close>

definition heard :: "real \<Rightarrow> real \<Rightarrow> bool \<Rightarrow> tick" where
  "heard s t p = \<lparr>q_get = None, predict = Inr [(''hey_nova'', s)], now = t, is_pressed = Inr p\<rparr>"

text \<open>An iteration in which \<open>model.predict\<close> raises.\<close>

definition predict_fails :: "real \<Rightarrow> tick" where
  "predict_fails t =
     \<lparr>q_get = None, predict = Inl (LibraryError ''predict''), now = t, is_pressed = Inr False\<rparr>"

text \<open>An episode in which model and stream are obtained and the given iterations follow.\<close>

definition listening :: "tick list \<Rightarrow> episode" where
  "listening ts =
     \<lparr>keyboard_wait = None, model_create = None, input_stream = None, stream_start = None,
      ticks = ts\<rparr>"

text \<open>An episode in which \<open>keyboard.wait\<close> returns at the instant \<open>t\<close>.\<close>

definition key_press_at :: "real \<Rightarrow> episode" where
  "key_press_at t =
     \<lparr>keyboard_wait = Some (Inr t), model_create = None, input_stream = None,
      stream_start = None, ticks = []\<rparr>"

text \<open>
  An episode in which the device is opened and \<open>stream.start()\<close> then raises, as
  PortAudio does when the opened device cannot be started.
\<close>

definition start_fails :: episode where
  "start_fails =
     \<lparr>keyboard_wait = None, model_create = None, input_stream = None,
      stream_start = Some (LibraryError ''PortAudioError''), ticks = []\<rparr>"

text \<open>Speech synthesis with the \<open>tts\<close> engine installed and working, and with no engine.\<close>

definition tts_ok :: tts_env where
  "tts_ok = \<lparr>which_tts = True, which_piper = False, subprocess_run = None, playback = None\<rparr>"

definition tts_missing :: tts_env where
  "tts_missing =
     \<lparr>which_tts = False, which_piper = False, subprocess_run = None, playback = None\<rparr>"

definition brain0 :: brain where
  "brain0 = \<lparr>stt_model = ''medium.en''\<rparr>"

text \<open>
  A turn in push-to-talk mode in which every step succeeds, and variants of it: the
  router raises; no speech engine is installed; wake-word mode is selected.
\<close>

definition turn_ok :: turn where
  "turn_ok =
     \<lparr>turn_config = cfg_ptt, wake = key_press_at 10, capture = Inr ''/tmp/a.wav'',
      transcribe = (\<lambda>wav m. Inr ''hello''), handle_command = (\<lambda>txt. Inr ''hi there''),
      reply_tts = tts_ok, apology_tts = tts_ok\<rparr>"

definition turn_route_fails :: turn where
  "turn_route_fails = turn_ok\<lparr>handle_command := (\<lambda>txt. Inl (HTTPError 500))\<rparr>"

definition turn_no_tts :: turn where
  "turn_no_tts = turn_ok\<lparr>reply_tts := tts_missing, apology_tts := tts_missing\<rparr>"

definition turn_wake_mode :: turn where
  "turn_wake_mode = turn_ok\<lparr>turn_config := cfg_wake, wake := listening []\<rparr>"




text \<open>
  Services that answer every request with status 200 and the body
  \<open>{"response": "hello"}\<close>, where \<open>json.loads\<close> rejects every text as not JSON; and the
  same services where \<open>json.loads\<close> reads every text as a call of a tool nobody knows.
\<close>

definition resp_hello :: response where
  "resp_hello =
     \<lparr>status_code = 200, content = ''data'',
      json_body = Some (JDict [(''response'', JStr ''hello'')])\<rparr>"

definition services0 :: services where
  "services0 =
     \<lparr>SCRYPTED_URL = Some ''http://host'', SCRYPTED_TOKEN = Some ''token'',
      requests_get = (\<lambda>url hs. Inr resp_hello),
      requests_post = (\<lambda>url hs payload. Inr resp_hello),
      str_of = (\<lambda>v. ''?''), b64encode = (\<lambda>s. s), json_loads = (\<lambda>s. Inl (JSONDecodeError ''Expecting value''))\<rparr>"





section \<open>Properties of the trigger detector\<close>

subsection \<open>The detection loop\<close>

text \<open>Idle iterations are passed over: each pulls one chunk and changes nothing else.\<close>

lemma wake_loop_idle:
  "list_all (idle cfg threshold (LAST_TRIGGER w)) pre \<Longrightarrow>
   wake_loop cfg threshold (pre @ ts) w =
   wake_loop cfg threshold ts (w\<lparr>trace := trace w @ replicate (length pre) ChunkPulled\<rparr>)"
proof (induction pre arbitrary: w)
  case Nil
  then show ?case by simp
next
  case (Cons t pre)
  from Cons.prems have t: "idle cfg threshold (LAST_TRIGGER w) t"
    and pre: "list_all (idle cfg threshold (LAST_TRIGGER w)) pre" by simp_all
  let ?w1 = "w\<lparr>trace := trace w @ [ChunkPulled]\<rparr>"
  from t have step:
    "wake_loop cfg threshold ((t # pre) @ ts) w = wake_loop cfg threshold (pre @ ts) ?w1"
    by (auto simp: idle_def split: sum.splits option.splits)
  from pre have "list_all (idle cfg threshold (LAST_TRIGGER ?w1)) pre" by simp
  from Cons.IH [OF this] step show ?case
    by (simp add: replicate_app_Cons_same)
qed

text \<open>The loop adds nothing to the trace but pulled chunks.\<close>

lemma wake_loop_trace:
  "wake_loop cfg threshold ts w = (r, w') \<Longrightarrow> \<exists>n. trace w' = trace w @ replicate n ChunkPulled"
proof (induction ts arbitrary: w)
  case Nil
  then show ?case by auto
next
  case (Cons t ts)
  let ?w1 = "w\<lparr>trace := trace w @ [ChunkPulled]\<rparr>"
  show ?case
  proof (cases "wake_loop cfg threshold (t # ts) w = wake_loop cfg threshold ts ?w1")
    case True
    with Cons.prems Cons.IH [of ?w1]
    obtain n where "trace w' = trace w @ [ChunkPulled] @ replicate n ChunkPulled" by auto
    then have "trace w' = trace w @ replicate (Suc n) ChunkPulled" by simp
    then show ?thesis by blast
  next
    case False
    with Cons.prems have "trace w' = trace w \<or> trace w' = trace w @ replicate 1 ChunkPulled"
      by (auto split: sum.splits option.splits if_splits simp: Let_def)
    then show ?thesis by (metis append_Nil2 replicate_0)
  qed
qed

text \<open>
  The loop writes \<open>_LAST_TRIGGER\<close> only when it returns a trigger, and then with an
  instant more than one second after the old value.
\<close>

lemma wake_loop_last:
  "wake_loop cfg threshold ts w = (r, w') \<Longrightarrow>
   (case r of
      Some (Inr k) \<Rightarrow> LAST_TRIGGER w' - LAST_TRIGGER w > 1
    | _ \<Rightarrow> LAST_TRIGGER w' = LAST_TRIGGER w)"
proof (induction ts arbitrary: w)
  case Nil
  then show ?case by auto
next
  case (Cons t ts)
  let ?w1 = "w\<lparr>trace := trace w @ [ChunkPulled]\<rparr>"
  show ?case
  proof (cases "wake_loop cfg threshold (t # ts) w = wake_loop cfg threshold ts ?w1")
    case True
    with Cons.prems Cons.IH [of ?w1]
    show ?thesis by (simp split: option.splits sum.splits)
  next
    case False
    with Cons.prems show ?thesis
      by (auto split: sum.splits option.splits if_splits simp: Let_def)
  qed
qed

lemma listen_last:
  assumes "\<not> USE_PUSH_TO_TALK cfg" and "listen_for_wake cfg oww threshold ep w = (r, w')"
  shows "case r of
           Some (Inr k) \<Rightarrow> LAST_TRIGGER w' - LAST_TRIGGER w > 1
         | _ \<Rightarrow> LAST_TRIGGER w' = LAST_TRIGGER w"
proof (cases "oww \<and> model_create ep = None \<and> input_stream ep = None \<and> stream_start ep = None")
  case False
  with assms show ?thesis
    by (auto simp: listen_for_wake_def microphone_stream_def Let_def split: option.splits if_splits)
next
  case True
  let ?w1 = "w\<lparr>trace := trace w @ [ModelCreated (WAKEWORD cfg), StreamOpened, StreamStarted]\<rparr>"
  obtain r2 w2 where loop: "wake_loop cfg threshold (ticks ep) ?w1 = (r2, w2)"
    by (cases "wake_loop cfg threshold (ticks ep) ?w1") auto
  from wake_loop_last [OF loop]
  have *: "case r2 of
             Some (Inr k) \<Rightarrow> LAST_TRIGGER w2 - LAST_TRIGGER w > 1
           | _ \<Rightarrow> LAST_TRIGGER w2 = LAST_TRIGGER w"
    by (simp split: option.splits sum.splits)
  from assms True loop have "r = r2 \<and> LAST_TRIGGER w' = LAST_TRIGGER w2"
    by (auto simp: listen_for_wake_def microphone_stream_def Let_def split: option.splits)
  with * show ?thesis by (simp split: option.splits sum.splits)
qed

lemma triggers_after:
  "list_all (\<lambda>(cfg, ep). \<not> USE_PUSH_TO_TALK cfg) calls \<Longrightarrow>
   (\<forall>e \<in> set (triggers oww threshold calls w). snd e - LAST_TRIGGER w > 1) \<and>
   sorted_wrt (\<lambda>a b. snd b - snd a > 1) (triggers oww threshold calls w)"
proof (induction calls arbitrary: w)
  case Nil
  then show ?case by simp
next
  case (Cons c calls)
  obtain cfg ep where c: "c = (cfg, ep)" by (cases c)
  obtain r w' where l: "listen_for_wake cfg oww threshold ep w = (r, w')"
    by (cases "listen_for_wake cfg oww threshold ep w")
  from Cons.prems c have wake: "\<not> USE_PUSH_TO_TALK cfg"
    and rest: "list_all (\<lambda>(cfg, ep). \<not> USE_PUSH_TO_TALK cfg) calls" by simp_all
  note IH = Cons.IH [OF rest, of w']
  note last = listen_last [OF wake l]
  show ?case
  proof (cases r)
    case None
    with c l show ?thesis by simp
  next
    case (Some x)
    show ?thesis
    proof (cases x)
      case (Inl e)
      with Some last have "LAST_TRIGGER w' = LAST_TRIGGER w" by simp
      with IH c l Some Inl show ?thesis by simp
    next
      case (Inr k)
      with Some last have "LAST_TRIGGER w' - LAST_TRIGGER w > 1" by simp
      with IH c l Some Inr show ?thesis by fastforce
    qed
  qed
qed

subsection \<open>Debounce\<close>

text \<open>
  C1, as the code has it. In wake-word mode the trigger events returned by successive
  calls of \<open>listen_for_wake\<close> are each more than one second after the one before, so any
  two of them are more than one second apart, whichever of the two sources fired: both
  tests read and write the one variable \<open>_LAST_TRIGGER\<close>. The window is the literal
  \<open>1.0\<close> of the two tests. (With floats the test \<open>now - _LAST_TRIGGER > 1.0\<close> passes only
  if the exact difference exceeds one, since rounding is monotone and \<open>1.0\<close> is a
  float.)
\<close>

theorem wake_mode_triggers_debounced:
  assumes "list_all (\<lambda>(cfg, ep). \<not> USE_PUSH_TO_TALK cfg) calls"
  shows "sorted_wrt (\<lambda>a b. snd b - snd a > 1) (triggers oww threshold calls w)"
  using triggers_after [OF assms] by blast

theorem wake_mode_triggers_debounced_witness:
  "triggers True default_threshold
     [(cfg_wake, listening [heard 0.9 10 False]),
      (cfg_wake, listening [heard 0.9 10.5 True, heard 0.2 12 True])] world0
   = [(''wakeword'', 10), (''push_to_talk'', 12)] \<and>
   sorted_wrt (\<lambda>a b. snd b - snd a > 1)
     (triggers True default_threshold
       [(cfg_wake, listening [heard 0.9 10 False]),
        (cfg_wake, listening [heard 0.9 10.5 True, heard 0.2 12 True])] world0)"
  using wake_mode_triggers_debounced
    [of "[(cfg_wake, listening [heard 0.9 10 False]),
          (cfg_wake, listening [heard 0.9 10.5 True, heard 0.2 12 True])]"
        True default_threshold world0]
  by (simp add: cfg_wake_def listening_def heard_def world0_def default_threshold_def
      listen_for_wake_def microphone_stream_def score_of_def)

text \<open>
  C1 as stated fails in push-to-talk mode, where \<open>listen_for_wake\<close> returns as soon as
  \<open>keyboard.wait\<close> does, without reading \<open>_LAST_TRIGGER\<close>: two presses 0.2 seconds apart
  give two events.
\<close>

theorem ptt_mode_triggers_not_debounced:
  "triggers True default_threshold
     [(cfg_ptt, key_press_at 10), (cfg_ptt, key_press_at 10.2)] world0 =
     [(''push_to_talk'', 10), (''push_to_talk'', 10.2)] \<and>
   \<not> sorted_wrt (\<lambda>a b. \<bar>snd b - snd a\<bar> \<ge> 1)
     (triggers True default_threshold
        [(cfg_ptt, key_press_at 10), (cfg_ptt, key_press_at 10.2)] world0)"
  by (simp add: cfg_ptt_def key_press_at_def world0_def listen_for_wake_def microphone_stream_def)

subsection \<open>The wake-word test\<close>

text \<open>
  Once the loop is entered and the iterations before it were idle, an iteration whose
  score exceeds the threshold while the debounce test passes ends the call: the result
  is \<open>wakeword\<close>, \<open>_LAST_TRIGGER\<close> is the instant of that iteration, no later chunk is
  pulled, and the stream is stopped and closed.
\<close>

lemma listen_wakeword:
  assumes mode: "\<not> USE_PUSH_TO_TALK cfg" "oww"
    and got: "model_create ep = None" "input_stream ep = None" "stream_start ep = None"
    and ticks: "ticks ep = pre @ t # post"
    and pre: "list_all (idle cfg threshold (LAST_TRIGGER w)) pre"
    and chunk: "q_get t = None" "predict t = Inr scores"
    and fires: "score_of cfg scores > threshold" "now t - LAST_TRIGGER w > 1"
  shows "listen_for_wake cfg oww threshold ep w =
     (Some (Inr ''wakeword''),
      w\<lparr>LAST_TRIGGER := now t,
        trace := trace w @ [ModelCreated (WAKEWORD cfg), StreamOpened, StreamStarted] @
                 replicate (Suc (length pre)) ChunkPulled @ [StreamStopped, StreamClosed]\<rparr>)"
proof -
  let ?w1 = "w\<lparr>trace := trace w @ [ModelCreated (WAKEWORD cfg), StreamOpened, StreamStarted]\<rparr>"
  let ?w2 = "?w1\<lparr>trace := trace ?w1 @ replicate (length pre) ChunkPulled\<rparr>"
  from pre have "list_all (idle cfg threshold (LAST_TRIGGER ?w1)) pre" by simp
  from wake_loop_idle [OF this, of "t # post"]
  have "wake_loop cfg threshold (ticks ep) ?w1 = wake_loop cfg threshold (t # post) ?w2"
    by (simp add: ticks)
  also from chunk fires have "\<dots> =
      (Some (Inr ''wakeword''), ?w2\<lparr>trace := trace ?w2 @ [ChunkPulled], LAST_TRIGGER := now t\<rparr>)"
    by simp
  finally have "wake_loop cfg threshold (ticks ep) ?w1 =
      (Some (Inr ''wakeword''), ?w2\<lparr>trace := trace ?w2 @ [ChunkPulled], LAST_TRIGGER := now t\<rparr>)" .
  with mode got show ?thesis
    by (simp add: listen_for_wake_def microphone_stream_def Let_def replicate_append_same)
qed

text \<open>
  C5, as the code has it. In wake-word mode, for every chunk the loop reaches whose
  score is strictly greater than the threshold while \<open>now - _LAST_TRIGGER > 1.0\<close>,
  \<open>listen_for_wake\<close> returns \<open>wakeword\<close> at that chunk: one event, since the call ends
  there, having pulled exactly the chunks up to and including it.
\<close>

theorem wakeword_on_qualifying_chunk:
  assumes "\<not> USE_PUSH_TO_TALK cfg" and "oww"
    and "model_create ep = None" and "input_stream ep = None" and "stream_start ep = None"
    and "ticks ep = pre @ t # post"
    and "list_all (idle cfg threshold (LAST_TRIGGER w)) pre"
    and "q_get t = None" and "predict t = Inr scores"
    and "score_of cfg scores > threshold" and "now t - LAST_TRIGGER w > 1"
  shows "listen_for_wake cfg oww threshold ep w =
     (Some (Inr ''wakeword''),
      w\<lparr>LAST_TRIGGER := now t,
        trace := trace w @ [ModelCreated (WAKEWORD cfg), StreamOpened, StreamStarted] @
                 replicate (Suc (length pre)) ChunkPulled @ [StreamStopped, StreamClosed]\<rparr>)"
  using assms by (rule listen_wakeword)

theorem wakeword_on_qualifying_chunk_witness:
  "listen_for_wake cfg_wake True default_threshold
     (listening [heard 0.9 0.5 True, heard 0.8 10 False, heard 0.9 20 False]) world0 =
     (Some (Inr ''wakeword''),
      world0\<lparr>LAST_TRIGGER := 10,
             trace := [ModelCreated ''hey_nova'', StreamOpened, StreamStarted, ChunkPulled, ChunkPulled,
                       StreamStopped, StreamClosed]\<rparr>)"
  using wakeword_on_qualifying_chunk
    [of cfg_wake True "listening [heard 0.9 0.5 True, heard 0.8 10 False, heard 0.9 20 False]"
        "[heard 0.9 0.5 True]" "heard 0.8 10 False" "[heard 0.9 20 False]"
        default_threshold world0 "[(''hey_nova'', 0.8)]"]
  by (simp add: cfg_wake_def listening_def heard_def world0_def default_threshold_def
      idle_def score_of_def)

text \<open>
  C5 as stated, with \<open>score \<ge> threshold\<close>, fails at a score equal to the threshold: the
  test of the code is strict, so the chunk scoring exactly 0.75 returns no event and the
  loop goes on waiting.
\<close>

theorem score_equal_threshold_no_wakeword:
  "0.75 \<ge> default_threshold \<and> 10 - LAST_TRIGGER world0 > 1 \<and>
   fst (listen_for_wake cfg_wake True default_threshold
          (listening [heard 0.75 10 False]) world0) = None"
  by (simp add: cfg_wake_def listening_def heard_def world0_def default_threshold_def
      listen_for_wake_def microphone_stream_def score_of_def)

text \<open>
  C6. When, in one iteration that the loop reaches, the score exceeds the threshold,
  the key is pressed and the debounce test passes, \<open>listen_for_wake\<close> returns
  \<open>wakeword\<close>: the wake-word test comes first and the key is not even polled.
\<close>

theorem wakeword_wins_tie:
  assumes "\<not> USE_PUSH_TO_TALK cfg" and "oww"
    and "model_create ep = None" and "input_stream ep = None" and "stream_start ep = None"
    and "ticks ep = pre @ t # post"
    and "list_all (idle cfg threshold (LAST_TRIGGER w)) pre"
    and "q_get t = None" and "predict t = Inr scores" and "is_pressed t = Inr True"
    and "score_of cfg scores > threshold" and "now t - LAST_TRIGGER w > 1"
  shows "fst (listen_for_wake cfg oww threshold ep w) = Some (Inr ''wakeword'')"
  using listen_wakeword [OF assms(1-9) assms(11-12)] by simp

theorem wakeword_wins_tie_witness:
  "fst (listen_for_wake cfg_wake True default_threshold
     (listening [heard 0.2 5 False, heard 0.9 10 True]) world0) = Some (Inr ''wakeword'')"
  using wakeword_wins_tie
    [of cfg_wake True "listening [heard 0.2 5 False, heard 0.9 10 True]"
        "[heard 0.2 5 False]" "heard 0.9 10 True" "[]"
        default_threshold world0 "[(''hey_nova'', 0.9)]"]
  by (simp add: cfg_wake_def listening_def heard_def world0_def default_threshold_def
      idle_def score_of_def)

subsection \<open>The microphone stream\<close>

lemma mic_after_append: "mic_after m (xs @ ys) = mic_after (mic_after m xs) ys"
  by (simp add: mic_after_def)

lemma mic_after_chunks: "mic_after m (replicate n ChunkPulled) = m"
  by (induction n) (simp_all add: mic_after_def)

text \<open>
  When \<open>stream.start()\<close> does not raise, no exit of \<open>listen_for_wake\<close> leaves a stream
  behind: whatever ends the loop, a trigger or an exception, the \<open>finally\<close> clause stops
  and closes the stream. When \<open>openwakeword\<close> is missing in wake-word mode the function
  raises at once, with the state and the trace untouched.
\<close>

lemma listen_releases:
  assumes "listen_for_wake cfg oww threshold ep w = (Some r, w')"
    and "mic_after NoStream (trace w) = NoStream"
    and started: "stream_start ep = None"
  shows "mic_after NoStream (trace w') = NoStream"
proof (cases "\<not> USE_PUSH_TO_TALK cfg \<and> oww \<and> model_create ep = None \<and> input_stream ep = None")
  case False
  with assms(1) started have "trace w' = trace w \<or> trace w' = trace w @ [KeyboardWait (PTT_KEY cfg)]
      \<or> trace w' = trace w @ [ModelCreated (WAKEWORD cfg)]"
    by (auto simp: listen_for_wake_def microphone_stream_def Let_def split: option.splits if_splits sum.splits)
  with assms(2) show ?thesis
    by (auto simp: mic_after_append) (simp_all add: mic_after_def)
next
  case True
  let ?w1 = "w\<lparr>trace := trace w @ [ModelCreated (WAKEWORD cfg), StreamOpened, StreamStarted]\<rparr>"
  obtain r2 w2 where loop: "wake_loop cfg threshold (ticks ep) ?w1 = (r2, w2)"
    by (cases "wake_loop cfg threshold (ticks ep) ?w1") auto
  from wake_loop_trace [OF loop] obtain n where
    n: "trace w2 = (trace w @ [ModelCreated (WAKEWORD cfg), StreamOpened, StreamStarted]) @ replicate n ChunkPulled"
    by auto
  from assms(1) True started loop have "trace w' = trace w2 @ [StreamStopped, StreamClosed]"
    by (auto simp: listen_for_wake_def microphone_stream_def Let_def split: option.splits)
  with n have "trace w' = trace w @ [ModelCreated (WAKEWORD cfg), StreamOpened, StreamStarted] @
      replicate n ChunkPulled @ [StreamStopped, StreamClosed]" by simp
  then have "mic_after NoStream (trace w') =
      mic_after (mic_after (mic_after (mic_after NoStream (trace w))
        [ModelCreated (WAKEWORD cfg), StreamOpened, StreamStarted]) (replicate n ChunkPulled))
        [StreamStopped, StreamClosed]"
    by (simp only: mic_after_append)
  then show ?thesis
    by (simp add: mic_after_chunks assms(2)) (simp add: mic_after_def)
qed

lemma listen_unavailable:
  "\<not> USE_PUSH_TO_TALK cfg \<Longrightarrow> \<not> oww \<Longrightarrow>
   listen_for_wake cfg oww threshold ep w =
     (Some (Inl (RuntimeError ''openwakeword not available'')), w)"
  by (simp add: listen_for_wake_def microphone_stream_def)

text \<open>
  C7 fails on one exit path. \<open>listen_for_wake\<close> calls \<open>audio_io.microphone_stream()\<close>
  before it enters its \<open>try\<close>, and that function opens the stream and only then starts
  it. When \<open>stream.start()\<close> raises, the exception leaves \<open>listen_for_wake\<close> with the
  device opened and nothing closing it: the trace ends with the opening of the stream,
  and the microphone is still held.
\<close>

theorem failing_start_leaves_stream_open:
  "listen_for_wake cfg_wake True default_threshold start_fails world0 =
     (Some (Inl (LibraryError ''PortAudioError'')),
      world0\<lparr>trace := [ModelCreated ''hey_nova'', StreamOpened]\<rparr>) \<and>
   mic_after NoStream (trace world0) = NoStream \<and>
   mic_after NoStream [ModelCreated ''hey_nova'', StreamOpened] = Opened"
  by (simp add: listen_for_wake_def microphone_stream_def start_fails_def cfg_wake_def
      world0_def mic_after_def Let_def)

section \<open>Properties of the turn controller\<close>

subsection \<open>What the trace and the state record\<close>

lemma logged_append: "logged (xs @ ys) = logged xs @ logged ys"
  by (induction xs rule: logged.induct) simp_all

lemma spoken_append: "spoken (xs @ ys) = spoken xs @ spoken ys"
  by (induction xs rule: spoken.induct) simp_all

lemma speak_effects:
  "\<exists>r es. speak env text w = (r, w\<lparr>trace := trace w @ SpeakCalled text # es\<rparr>) \<and>
          logged es = [] \<and> spoken es = []"
  by (auto simp: speak_def run_cmd_def Let_def split: option.splits)

lemma on_error_effects:
  "\<exists>es. on_error t exc w = w\<lparr>trace := trace w @ LogException exc # SpeakCalled apology # es\<rparr> \<and>
        logged es = [] \<and> spoken es = []"
proof -
  let ?w1 = "w\<lparr>trace := trace w @ [LogException exc]\<rparr>"
  from speak_effects [of "apology_tts t" apology ?w1]
  obtain r es where s: "speak (apology_tts t) apology ?w1 =
      (r, ?w1\<lparr>trace := trace ?w1 @ SpeakCalled apology # es\<rparr>)"
    and es: "logged es = []" "spoken es = []" by blast
  from s have "on_error t exc w = w\<lparr>trace := trace w @ LogException exc # SpeakCalled apology # es\<rparr>"
    by (simp add: on_error_def)
  with es show ?thesis by blast
qed

lemma on_error_state:
  "last_transcript (on_error t exc w) = last_transcript w \<and>
   last_response (on_error t exc w) = last_response w \<and>
   LAST_TRIGGER (on_error t exc w) = LAST_TRIGGER w"
  using on_error_effects [of t exc w] by auto

lemma on_error_logged:
  "logged (trace (on_error t exc w)) = logged (trace w) @ [exc]"
  using on_error_effects [of t exc w] by (auto simp: logged_append)

lemma on_error_spoken:
  "spoken (trace (on_error t exc w)) = spoken (trace w) @ [apology]"
  using on_error_effects [of t exc w] by (auto simp: spoken_append)

lemma listen_keeps_last_turn:
  "listen_for_wake cfg oww threshold ep w = (r, w') \<Longrightarrow>
   last_transcript w' = last_transcript w \<and> last_response w' = last_response w"
proof (cases "\<not> USE_PUSH_TO_TALK cfg \<and> oww \<and> model_create ep = None \<and> input_stream ep = None \<and> stream_start ep = None")
  case False
  assume "listen_for_wake cfg oww threshold ep w = (r, w')"
  with False show ?thesis
    by (auto simp: listen_for_wake_def microphone_stream_def Let_def split: option.splits if_splits sum.splits)
next
  case True
  assume l: "listen_for_wake cfg oww threshold ep w = (r, w')"
  let ?w1 = "w\<lparr>trace := trace w @ [ModelCreated (WAKEWORD cfg), StreamOpened, StreamStarted]\<rparr>"
  obtain r2 w2 where loop: "wake_loop cfg threshold (ticks ep) ?w1 = (r2, w2)"
    by (cases "wake_loop cfg threshold (ticks ep) ?w1") auto
  have keep: "\<And>ts u r u'. wake_loop cfg threshold ts u = (r, u') \<Longrightarrow>
      last_transcript u' = last_transcript u \<and> last_response u' = last_response u"
  proof -
    fix ts u r u'
    show "wake_loop cfg threshold ts u = (r, u') \<Longrightarrow>
      last_transcript u' = last_transcript u \<and> last_response u' = last_response u"
      by (induction ts arbitrary: u)
         (auto split: sum.splits option.splits if_splits simp: Let_def)
  qed
  from keep [OF loop] l True loop show ?thesis
    by (auto simp: listen_for_wake_def microphone_stream_def Let_def split: option.splits)
qed

lemma speak_keeps_last_turn:
  "speak env text w = (r, w') \<Longrightarrow>
   last_transcript w' = last_transcript w \<and> last_response w' = last_response w"
  using speak_effects [of env "text" w] by auto

subsection \<open>Last-Turn State\<close>

text \<open>
  C2, as the code has it. \<open>run_once\<close> assigns \<open>last_transcript\<close> as soon as
  transcription returns and \<open>last_response\<close> as soon as routing returns. So: when no
  trigger is returned, or capture or transcription raises, both globals keep the values
  they had before the turn; when routing raises, \<open>last_transcript\<close> already holds the new
  transcript and \<open>last_response\<close> keeps its old value; once routing has returned, both
  hold the transcript and the response of this turn, whether synthesis then raises or
  not.
\<close>

theorem last_turn_state_after_turn:
  assumes "run_once b oww t w = (res, w')"
  shows
    "((\<forall>k. fst (listen_for_wake (turn_config t) oww default_threshold (wake t) w) \<noteq> Some (Inr k)) \<longrightarrow>
        last_transcript w' = last_transcript w \<and> last_response w' = last_response w) \<and>
     (\<forall>k. fst (listen_for_wake (turn_config t) oww default_threshold (wake t) w) = Some (Inr k) \<longrightarrow>
        (\<forall>e. capture t = Inl e \<longrightarrow>
           res = Some (Inl e) \<and>
           last_transcript w' = last_transcript w \<and> last_response w' = last_response w) \<and>
        (\<forall>wav. capture t = Inr wav \<longrightarrow>
           (\<forall>e. transcribe t wav (stt_model b) = Inl e \<longrightarrow>
              res = Some (Inl e) \<and>
              last_transcript w' = last_transcript w \<and> last_response w' = last_response w) \<and>
           (\<forall>transcript. transcribe t wav (stt_model b) = Inr transcript \<longrightarrow>
              (\<forall>e. handle_command t transcript = Inl e \<longrightarrow>
                 res = Some (Inl e) \<and>
                 last_transcript w' = Some transcript \<and> last_response w' = last_response w) \<and>
              (\<forall>response. handle_command t transcript = Inr response \<longrightarrow>
                 last_transcript w' = Some transcript \<and> last_response w' = Some response))))"
proof -
  obtain r1 w1 where l: "listen_for_wake (turn_config t) oww default_threshold (wake t) w = (r1, w1)"
    by (cases "listen_for_wake (turn_config t) oww default_threshold (wake t) w")
  note k1 = listen_keeps_last_turn [OF l]
  show ?thesis
  proof (intro conjI allI impI)
    assume "\<forall>k. fst (listen_for_wake (turn_config t) oww default_threshold (wake t) w) \<noteq> Some (Inr k)"
    with l assms have "w' = w1"
      by (auto simp: run_once_def split: option.splits sum.splits)
    with k1 show "last_transcript w' = last_transcript w" "last_response w' = last_response w"
      by simp_all
  next
    fix k e
    assume "fst (listen_for_wake (turn_config t) oww default_threshold (wake t) w) = Some (Inr k)"
      and "capture t = Inl e"
    with l assms have "res = Some (Inl e) \<and> w' = w1"
      by (auto simp: run_once_def)
    with k1 show "res = Some (Inl e)" "last_transcript w' = last_transcript w"
      "last_response w' = last_response w" by simp_all
  next
    fix k wav e
    assume "fst (listen_for_wake (turn_config t) oww default_threshold (wake t) w) = Some (Inr k)"
      and "capture t = Inr wav" and "transcribe t wav (stt_model b) = Inl e"
    with l assms have "res = Some (Inl e) \<and> w' = log_info (''recorded audio at '' @ wav) w1"
      by (auto simp: run_once_def Let_def)
    with k1 show "res = Some (Inl e)" "last_transcript w' = last_transcript w"
      "last_response w' = last_response w" by (simp_all add: log_info_def)
  next
    fix k wav transcript e
    assume "fst (listen_for_wake (turn_config t) oww default_threshold (wake t) w) = Some (Inr k)"
      and "capture t = Inr wav" and "transcribe t wav (stt_model b) = Inr transcript"
      and "handle_command t transcript = Inl e"
    with l assms have "res = Some (Inl e) \<and>
        w' = log_info (''transcript: '' @ transcript)
               ((log_info (''recorded audio at '' @ wav) w1)\<lparr>last_transcript := Some transcript\<rparr>)"
      by (auto simp: run_once_def Let_def)
    with k1 show "res = Some (Inl e)" "last_transcript w' = Some transcript"
      "last_response w' = last_response w" by (simp_all add: log_info_def)
  next
    fix k wav transcript response
    assume a: "fst (listen_for_wake (turn_config t) oww default_threshold (wake t) w) = Some (Inr k)"
      "capture t = Inr wav" "transcribe t wav (stt_model b) = Inr transcript"
      "handle_command t transcript = Inr response"
    let ?w4 = "log_info (''response: '' @ response)
        ((log_info (''transcript: '' @ transcript)
           ((log_info (''recorded audio at '' @ wav) w1)\<lparr>last_transcript := Some transcript\<rparr>))
         \<lparr>last_response := Some response\<rparr>)"
    obtain r5 w5 where s: "speak (reply_tts t) response ?w4 = (r5, w5)"
      by (cases "speak (reply_tts t) response ?w4")
    from a l assms s have "w' = w5"
      by (auto simp: run_once_def Let_def split: sum.splits)
    with speak_keeps_last_turn [OF s]
    show "last_transcript w' = Some transcript" "last_response w' = Some response"
      by (simp_all add: log_info_def)
  qed
qed

theorem last_turn_state_after_turn_witness:
  "last_transcript (snd (run_once brain0 True turn_ok world0)) = Some ''hello'' \<and>
   last_response (snd (run_once brain0 True turn_ok world0)) = Some ''hi there'' \<and>
   fst (run_once brain0 True turn_ok world0) = Some (Inr ())"
  using last_turn_state_after_turn
    [of brain0 True turn_ok world0 "fst (run_once brain0 True turn_ok world0)"
        "snd (run_once brain0 True turn_ok world0)"]
  by (simp add: run_once_def listen_for_wake_def microphone_stream_def speak_def run_cmd_def log_info_def
      turn_ok_def tts_ok_def cfg_ptt_def key_press_at_def world0_def brain0_def
      default_threshold_def Let_def)

text \<open>
  C2 as stated fails when routing raises: the turn fails, and \<open>last_transcript\<close> has
  changed from \<open>None\<close> to the transcript of the failed turn, also after the handler of
  \<open>Brain.run\<close> has run.
\<close>

theorem routing_failure_updates_transcript:
  "fst (run_once brain0 True turn_route_fails world0) = Some (Inl (HTTPError 500)) \<and>
   last_transcript world0 = None \<and>
   last_transcript (snd (run_once brain0 True turn_route_fails world0)) = Some ''hello'' \<and>
   last_transcript (run brain0 True [turn_route_fails] world0) = Some ''hello'' \<and>
   last_response (run brain0 True [turn_route_fails] world0) = None"
  by (simp add: run_once_def listen_for_wake_def microphone_stream_def speak_def run_cmd_def log_info_def
      on_error_def apology_def turn_route_fails_def turn_ok_def tts_ok_def cfg_ptt_def
      key_press_at_def world0_def brain0_def default_threshold_def Let_def)

subsection \<open>A failed turn\<close>

text \<open>
  C4. When a turn raises, \<open>Brain.run\<close> goes on with the turns still to come, from the
  state the handler leaves: the handler logs the exception, calls \<open>tts.speak\<close> once, with
  the apology, and passes over whatever that call raises; it changes neither
  \<open>last_transcript\<close> nor \<open>last_response\<close>. The statement holds for every outcome of the
  apology call, since the turn \<open>t\<close> is arbitrary.
\<close>

theorem turn_failure_is_isolated:
  assumes "run_once b oww t w = (Some (Inl exc), w1)"
  shows "run b oww (t # ts) w = run b oww ts (on_error t exc w1) \<and>
         logged (trace (on_error t exc w1)) = logged (trace w1) @ [exc] \<and>
         spoken (trace (on_error t exc w1)) = spoken (trace w1) @ [apology] \<and>
         last_transcript (on_error t exc w1) = last_transcript w1 \<and>
         last_response (on_error t exc w1) = last_response w1"
  using assms by (simp add: on_error_logged on_error_spoken on_error_state)

theorem turn_failure_is_isolated_witness:
  "run_once brain0 True turn_no_tts world0 =
     (Some (Inl (RuntimeError ''No TTS engine available'')),
      world0\<lparr>LAST_TRIGGER := 10, last_transcript := Some ''hello'',
             last_response := Some ''hi there'',
             trace := [KeyboardWait ''F9'', LogInfo ''recorded audio at /tmp/a.wav'',
                       LogInfo ''transcript: hello'', LogInfo ''response: hi there'',
                       SpeakCalled ''hi there'']\<rparr>) \<and>
   logged (trace (run brain0 True [turn_no_tts, turn_ok] world0)) =
     [RuntimeError ''No TTS engine available''] \<and>
   spoken (trace (run brain0 True [turn_no_tts, turn_ok] world0)) =
     [''hi there'', ''Sorry, something went wrong'', ''hi there'']"
  using turn_failure_is_isolated
    [of brain0 True turn_no_tts world0 "RuntimeError ''No TTS engine available''"
        "snd (run_once brain0 True turn_no_tts world0)" "[turn_ok]"]
  by (simp add: run_once_def listen_for_wake_def microphone_stream_def speak_def run_cmd_def log_info_def
      on_error_def apology_def turn_no_tts_def turn_ok_def tts_missing_def tts_ok_def
      cfg_ptt_def key_press_at_def world0_def brain0_def default_threshold_def Let_def)

subsection \<open>A missing wake-word library\<close>

lemma run_once_no_detector:
  "\<not> USE_PUSH_TO_TALK (turn_config t) \<Longrightarrow>
   run_once b False t w = (Some (Inl (RuntimeError ''openwakeword not available'')), w)"
  by (simp add: run_once_def listen_for_wake_def microphone_stream_def)

lemma run_no_detector:
  "list_all (\<lambda>t. \<not> USE_PUSH_TO_TALK (turn_config t)) ts \<Longrightarrow>
   logged (trace (run b False ts w)) =
     logged (trace w) @ replicate (length ts) (RuntimeError ''openwakeword not available'') \<and>
   spoken (trace (run b False ts w)) = spoken (trace w) @ replicate (length ts) apology \<and>
   mic_after m (trace (run b False ts w)) = mic_after m (trace w) \<and>
   last_transcript (run b False ts w) = last_transcript w \<and>
   last_response (run b False ts w) = last_response w"
proof (induction ts arbitrary: w)
  case Nil
  then show ?case by simp
next
  case (Cons t ts)
  let ?e = "RuntimeError ''openwakeword not available''"
  from Cons.prems have t: "\<not> USE_PUSH_TO_TALK (turn_config t)"
    and ts: "list_all (\<lambda>t. \<not> USE_PUSH_TO_TALK (turn_config t)) ts" by simp_all
  have step: "run b False (t # ts) w = run b False ts (on_error t ?e w)"
    by (simp add: run_once_no_detector [OF t])
  have mic: "mic_after m (trace (on_error t ?e w)) = mic_after m (trace w)"
    by (auto simp: on_error_def speak_def run_cmd_def Let_def mic_after_def split: option.splits)
  from Cons.IH [OF ts, of "on_error t ?e w"] step mic show ?case
    by (simp add: on_error_logged on_error_spoken on_error_state replicate_app_Cons_same)
qed

text \<open>
  C3, as the code has it. Nothing checks for \<open>openwakeword\<close> before \<open>Brain.run\<close> enters
  its loop. In wake-word mode without the library, every iteration of the loop raises
  \<open>RuntimeError\<close> from \<open>listen_for_wake\<close> before any stream exists, and the handler of
  the loop catches it: over any number of turns, each turn logs that one exception and
  attempts one apology, and the loop goes on.
\<close>

theorem missing_detector_is_swallowed_each_turn:
  assumes "list_all (\<lambda>t. \<not> USE_PUSH_TO_TALK (turn_config t)) ts"
  shows "logged (trace (run b False ts w)) =
           logged (trace w) @ replicate (length ts) (RuntimeError ''openwakeword not available'') \<and>
         spoken (trace (run b False ts w)) = spoken (trace w) @ replicate (length ts) apology \<and>
         mic_after NoStream (trace (run b False ts w)) = mic_after NoStream (trace w)"
  using run_no_detector [OF assms] by blast

theorem missing_detector_is_swallowed_each_turn_witness:
  "logged (trace (run brain0 False [turn_wake_mode, turn_wake_mode, turn_wake_mode] world0)) =
     [RuntimeError ''openwakeword not available'', RuntimeError ''openwakeword not available'',
      RuntimeError ''openwakeword not available''] \<and>
   spoken (trace (run brain0 False [turn_wake_mode, turn_wake_mode, turn_wake_mode] world0)) =
     [apology, apology, apology]"
  using missing_detector_is_swallowed_each_turn
    [of "[turn_wake_mode, turn_wake_mode, turn_wake_mode]" brain0 world0]
  by (simp add: turn_wake_mode_def turn_ok_def cfg_wake_def world0_def)

text \<open>
  C3 as stated fails: with the library missing the loop does start, and the error is
  caught and apologised for in each of its iterations.
\<close>

theorem missing_detector_loop_runs:
  "run_once brain0 False turn_wake_mode world0 =
     (Some (Inl (RuntimeError ''openwakeword not available'')), world0) \<and>
   trace (run brain0 False [turn_wake_mode, turn_wake_mode] world0) =
     [LogException (RuntimeError ''openwakeword not available''),
      SpeakCalled ''Sorry, something went wrong'',
      RunCmd [''tts'', ''--text'', ''Sorry, something went wrong'', ''--out_path'', ''reply.wav''],
      PlayWav ''reply.wav'',
      LogException (RuntimeError ''openwakeword not available''),
      SpeakCalled ''Sorry, something went wrong'',
      RunCmd [''tts'', ''--text'', ''Sorry, something went wrong'', ''--out_path'', ''reply.wav''],
      PlayWav ''reply.wav'']"
  by (simp add: run_once_def listen_for_wake_def microphone_stream_def speak_def run_cmd_def log_info_def
      on_error_def apology_def turn_wake_mode_def turn_ok_def tts_ok_def cfg_wake_def
      listening_def world0_def brain0_def default_threshold_def Let_def)

section \<open>Properties of capture and playback\<close>










section \<open>Properties of the tool handler and the chat backend\<close>

lemma handle_tool_missing:
  assumes tool: "map_of block ''tool'' = Some (JStr name)"
    and name: "name = ''scrypted.snapshot'' \<or> name = ''scrypted.arm''"
    and args: "map_of block ''args'' = None \<or>
               (\<exists>d. map_of block ''args'' = Some (JDict d) \<and>
                    (map_of d ''device_id'' = None \<or>
                     (\<exists>v. map_of d ''device_id'' = Some v \<and> \<not> truthy v)))"
  shows "handle_tool env block = (Inr (JStr ''device_id missing''), [])"
proof -
  let ?args = "case map_of block ''args'' of None \<Rightarrow> JDict [] | Some a \<Rightarrow> a"
  from args obtain v where "py_get ?args ''device_id'' JNull = Inr v" and "\<not> truthy v"
    by (auto simp: py_get_def)
  with tool name show ?thesis
    by (auto simp: handle_tool_def Let_def and_then_def lift_def ret_def)
qed

lemma handle_tool_unknown:
  assumes "map_of block ''tool'' \<noteq> Some (JStr ''scrypted.snapshot'')"
    and "map_of block ''tool'' \<noteq> Some (JStr ''scrypted.arm'')"
  shows "handle_tool env block = (Inr (JStr ''Unknown tool''), [])"
  using assms by (simp add: handle_tool_def Let_def ret_def)

text \<open>
  C9. For a block whose tool is \<open>scrypted.snapshot\<close> or \<open>scrypted.arm\<close> and whose \<open>args\<close>
  are absent, or a dictionary in which \<open>device_id\<close> is absent or falsy (\<open>None\<close>, an empty
  string, zero, an empty list or dictionary), \<open>handle_tool\<close> returns
  \<open>device_id missing\<close> without raising and without any effect, so without an HTTP
  request. For every block whose tool is neither of the two names it returns
  \<open>Unknown tool\<close>, again without any effect.
\<close>

theorem handle_tool_without_device_or_unknown:
  "(map_of block ''tool'' = Some (JStr name) \<and>
    (name = ''scrypted.snapshot'' \<or> name = ''scrypted.arm'') \<and>
    (map_of block ''args'' = None \<or>
     (\<exists>d. map_of block ''args'' = Some (JDict d) \<and>
          (map_of d ''device_id'' = None \<or>
           (\<exists>v. map_of d ''device_id'' = Some v \<and> \<not> truthy v)))) \<longrightarrow>
    handle_tool env block = (Inr (JStr ''device_id missing''), [])) \<and>
   (map_of block ''tool'' \<noteq> Some (JStr ''scrypted.snapshot'') \<and>
    map_of block ''tool'' \<noteq> Some (JStr ''scrypted.arm'') \<longrightarrow>
    handle_tool env block = (Inr (JStr ''Unknown tool''), []))"
  using handle_tool_missing [of block name env] handle_tool_unknown [of block env] by blast

theorem handle_tool_without_device_or_unknown_witness:
  "handle_tool services0 [(''tool'', JStr ''scrypted.arm''), (''args'', JDict [(''device_id'', JStr [])])] =
     (Inr (JStr ''device_id missing''), []) \<and>
   handle_tool services0 [(''tool'', JStr ''scrypted.snapshot'')] =
     (Inr (JStr ''device_id missing''), []) \<and>
   handle_tool services0 [(''tool'', JStr ''lights.on''), (''args'', JDict [])] =
     (Inr (JStr ''Unknown tool''), [])"
  using handle_tool_without_device_or_unknown
      [of "[(''tool'', JStr ''scrypted.arm''), (''args'', JDict [(''device_id'', JStr [])])]"
          "''scrypted.arm''" services0]
    handle_tool_without_device_or_unknown
      [of "[(''tool'', JStr ''scrypted.snapshot'')]" "''scrypted.snapshot''" services0]
    handle_tool_without_device_or_unknown
      [of "[(''tool'', JStr ''lights.on''), (''args'', JDict [])]" "''lights.on''" services0]
  by simp







end
